theory Spec2Isabelle
  imports Complex_Main "HOL-Library.Char_ord" "HOL-Library.List_Lexorder"
begin

section \<open>Python values used by corpus/classes.py\<close>

text \<open>
  The module \<^verbatim>\<open>montreal_forced_aligner/corpus/classes.py\<close> is embedded function by
  function. Exceptions are values of \<open>error\<close>; a function that can raise returns
  \<open>error + 'a\<close> with \<open>Inl\<close> for the raise. When a method raises after it has
  already mutated its object, the model returns the exception only.
\<close>

datatype error =
    TypeError
  | AttributeError
  | KeyError
  | IndexError
  | UnicodeDecodeError
  | CorpusError
  | TextParseError string
  | TextGridParseError string
  | MoreThanTwoChannels

subsection \<open>Strings\<close>

text \<open>
  A Python \<open>str\<close> is a \<open>string\<close>; a character stands for the code point of the
  same number (below 256). \<open>str.lower\<close> and \<open>str.isspace\<close> are written out for
  these code points.
\<close>

definition lower_char :: "char \<Rightarrow> char" where
  "lower_char c =
     (let n = (of_char c :: nat)
      in if (65 \<le> n \<and> n \<le> 90) \<or> (192 \<le> n \<and> n \<le> 222 \<and> n \<noteq> 215)
         then char_of (n + 32) else c)"

definition lower :: "string \<Rightarrow> string" where
  "lower s = map lower_char s"

definition isspace :: "char \<Rightarrow> bool" where
  "isspace c =
     (let n = (of_char c :: nat)
      in (9 \<le> n \<and> n \<le> 13) \<or> (28 \<le> n \<and> n \<le> 32) \<or> n = 133 \<or> n = 160)"

definition strip :: "string \<Rightarrow> string" where
  "strip s = rev (dropWhile isspace (rev (dropWhile isspace s)))"

definition startswith :: "string \<Rightarrow> string \<Rightarrow> bool" where
  "startswith s p = (take (length p) s = p)"

text \<open>
  \<open>s.replace(old, new)\<close>: every occurrence of \<open>old\<close>, found from the left without
  overlap, becomes \<open>new\<close>; an empty \<open>old\<close> matches before every character and at
  the end.
\<close>

function replace_from :: "string \<Rightarrow> string \<Rightarrow> string \<Rightarrow> string" where
  "replace_from old new s =
     (if old = [] \<or> s = [] then s
      else if take (length old) s = old
        then new @ replace_from old new (drop (length old) s)
      else hd s # replace_from old new (tl s))"
  by pat_completeness auto
termination
  by (relation "measure (\<lambda>(old, new, s). length s)") auto

declare replace_from.simps [simp del]

definition replace :: "string \<Rightarrow> string \<Rightarrow> string \<Rightarrow> string" where
  "replace s old new =
     (if old = [] then new @ concat (map (\<lambda>c. c # new) s)
      else replace_from old new s)"

text \<open>\<open>s.split(sep)\<close> for a separator of one character: never an empty list.\<close>

fun split_char :: "char \<Rightarrow> string \<Rightarrow> string list" where
  "split_char sep [] = [[]]"
| "split_char sep (c # cs) =
     (if c = sep then [] # split_char sep cs
      else (case split_char sep cs of
              [] \<Rightarrow> [[c]]
            | w # ws \<Rightarrow> (c # w) # ws))"

fun join :: "string \<Rightarrow> string list \<Rightarrow> string" where
  "join sep [] = []"
| "join sep [w] = w"
| "join sep (w # ws) = w @ sep @ join sep ws"

text \<open>\<open>str(i)\<close> of a Python int: decimal digits, a leading minus when negative.\<close>

definition digit_char :: "nat \<Rightarrow> char" where
  "digit_char d = char_of (48 + d)"

fun str_nat :: "nat \<Rightarrow> string" where
  "str_nat n = (if n < 10 then [digit_char n] else str_nat (n div 10) @ [digit_char (n mod 10)])"

declare str_nat.simps [simp del]

definition str_int :: "int \<Rightarrow> string" where
  "str_int i = (if i < 0 then CHR ''-'' # str_nat (nat (- i)) else str_nat (nat i))"

text \<open>
  A boundary value printed by an f-string. A Python int prints its digits. A Python
  float is held here by its \<open>repr\<close>, the shortest decimal that reads back as the same
  float, so a float is named by the text that \<open>str\<close> gives for it.
\<close>

datatype pynum = PyInt int | PyFloat string

fun py_str :: "pynum \<Rightarrow> string" where
  "py_str (PyInt i) = str_int i"
| "py_str (PyFloat r) = r"

subsection \<open>os.path (posixpath)\<close>

definition after_last_sep :: "string \<Rightarrow> string" where
  "after_last_sep p = rev (takeWhile (\<lambda>c. c \<noteq> CHR ''/'') (rev p))"

definition upto_last_sep :: "string \<Rightarrow> string" where
  "upto_last_sep p = rev (dropWhile (\<lambda>c. c \<noteq> CHR ''/'') (rev p))"

definition basename :: "string \<Rightarrow> string" where
  "basename p = after_last_sep p"

definition dirname :: "string \<Rightarrow> string" where
  "dirname p =
     (let head = upto_last_sep p
      in if head \<noteq> [] \<and> head \<noteq> replicate (length head) (CHR ''/'')
         then rev (dropWhile (\<lambda>c. c = CHR ''/'') (rev head))
         else head)"

text \<open>
  \<open>os.path.splitext\<close>: the extension starts at the last dot of the last path
  component, unless only dots stand before it in that component.
\<close>

definition splitext :: "string \<Rightarrow> string \<times> string" where
  "splitext p =
     (let b = after_last_sep p
      in if CHR ''.'' \<in> set b
         then (let ext = CHR ''.'' # rev (takeWhile (\<lambda>c. c \<noteq> CHR ''.'') (rev b));
                   before = take (length p - length ext) p;
                   stem = take (length b - length ext) b
               in if (\<exists>c \<in> set stem. c \<noteq> CHR ''.'') then (before, ext) else (p, []))
         else (p, []))"

definition path_join :: "string \<Rightarrow> string \<Rightarrow> string" where
  "path_join a b =
     (if startswith b ''/'' then b
      else if a = [] \<or> last a = CHR ''/'' then a @ b
      else a @ ''/'' @ b)"

section \<open>Speaker\<close>

text \<open>
  The fields of a Speaker that the operations below read: \<open>_name\<close>, \<open>cmvn\<close> and
  \<open>dictionary_name\<close>. The speaker's own utterance collection, its dictionary and its
  word counts are not part of the model.
\<close>

record Speaker =
  s_name :: string
  cmvn :: "string option"
  dictionary_name :: "string option"

definition Speaker_init :: "string \<Rightarrow> Speaker" where
  "Speaker_init n = \<lparr>s_name = n, cmvn = None, dictionary_name = None\<rparr>"

section \<open>Utterance\<close>

text \<open>
  Boundaries, durations and times have the type \<open>'n\<close> of the numbers that reach
  the code (Python floats, and ints where a caller passes them). The back-reference
  \<open>file\<close> of an utterance is held by its \<open>file_name\<close> only; \<open>speaker\<close> is the
  attribute, which later code may set to \<open>None\<close>.
\<close>

record 'n Utterance =
  speaker :: "Speaker option"
  file_name :: string
  speaker_name :: string
  u_begin :: "'n option"
  u_end :: "'n option"
  channel :: "int option"
  u_text :: "string option"
  transcription_text :: "string option"
  ignored :: bool
  features :: "string option"
  feature_length :: "int option"
  phone_labels :: "('n \<times> 'n \<times> string) list option"
  word_labels :: "('n \<times> 'n \<times> string) list option"
  oovs :: "string set"

definition Utterance_is_segment :: "'n Utterance \<Rightarrow> bool" where
  "Utterance_is_segment u = (u_begin u \<noteq> None \<and> u_end u \<noteq> None)"

definition substitute :: "string \<Rightarrow> string" where
  "substitute s = replace (replace (replace s '' '' ''-space-'') ''.'' ''-'') ''_'' ''-''"

text \<open>
  The property \<open>Utterance.name\<close>. \<open>fmt\<close> is the text an f-string puts for a
  boundary value (\<open>str\<close> of the number).
\<close>

definition Utterance_name :: "('n \<Rightarrow> string) \<Rightarrow> 'n Utterance \<Rightarrow> string" where
  "Utterance_name fmt u =
     (let base = file_name u;
          base = substitute base;
          base = (if \<not> startswith base (speaker_name u @ ''-'')
                  then speaker_name u @ ''-'' @ base else base);
          base = (case (u_begin u, u_end u) of
                    (Some b, Some e) \<Rightarrow> base @ ''-'' @ fmt b @ ''-'' @ fmt e
                  | _ \<Rightarrow> base)
      in substitute base)"

section \<open>File\<close>

record 'n wav_info =
  wi_duration :: 'n
  wi_num_channels :: int
  wi_sample_rate :: int
  wi_format :: string
  wi_sox_string :: string

text \<open>
  \<open>utterances\<close> is the dict of an UtteranceCollection in insertion order;
  \<open>speaker_ordering\<close> is a Python list whose entries \<open>save\<close> tests against \<open>None\<close>.
\<close>

record 'n File =
  wav_path :: "string option"
  text_path :: "string option"
  f_name :: string
  relative_path :: "string option"
  wav_info :: "'n wav_info option"
  waveform :: "'n list list option"
  speaker_ordering :: "Speaker option list"
  utterances :: "(string \<times> 'n Utterance) list"
  aligned :: bool

definition File_init :: "string option \<Rightarrow> string option \<Rightarrow> string option \<Rightarrow> error + 'n File" where
  "File_init wp tp rp =
     (case (case wp of
              Some w \<Rightarrow> Inr (fst (splitext (basename w)))
            | None \<Rightarrow> (case tp of
                         Some t \<Rightarrow> Inr (fst (splitext (basename t)))
                       | None \<Rightarrow> Inl CorpusError)) of
        Inl e \<Rightarrow> Inl e
      | Inr n \<Rightarrow>
          Inr \<lparr>wav_path = wp, text_path = tp, f_name = n, relative_path = rp,
               wav_info = None, waveform = None, speaker_ordering = [],
               utterances = [], aligned = False\<rparr>)"

definition Utterance_init ::
  "Speaker option \<Rightarrow> 'n File \<Rightarrow> 'n option \<Rightarrow> 'n option \<Rightarrow> int option \<Rightarrow> string option
     \<Rightarrow> error + 'n Utterance" where
  "Utterance_init spk f b e ch txt =
     (case spk of
        None \<Rightarrow> Inl AttributeError
      | Some s \<Rightarrow>
          Inr \<lparr>speaker = Some s, file_name = f_name f, speaker_name = s_name s,
               u_begin = b, u_end = e, channel = ch, u_text = txt,
               transcription_text = None, ignored = False, features = None,
               feature_length = None, phone_labels = None, word_labels = None,
               oovs = {}\<rparr>)"

subsection \<open>Comparison methods\<close>

text \<open>The right operand of a comparison: one of the three entities, a str, or anything else.\<close>

datatype 'n pyobj =
    ObjSpeaker Speaker
  | ObjFile "'n File"
  | ObjUtterance "'n Utterance"
  | ObjStr string
  | ObjOther

fun Speaker_eq :: "Speaker \<Rightarrow> 'n pyobj \<Rightarrow> error + bool" where
  "Speaker_eq self (ObjSpeaker other) = Inr (s_name other = s_name self)"
| "Speaker_eq self (ObjStr other) = Inr (s_name self = other)"
| "Speaker_eq self _ = Inl TypeError"

fun Speaker_lt :: "Speaker \<Rightarrow> 'n pyobj \<Rightarrow> error + bool" where
  "Speaker_lt self (ObjSpeaker other) = Inr (s_name other < s_name self)"
| "Speaker_lt self (ObjStr other) = Inr (s_name self < other)"
| "Speaker_lt self _ = Inl TypeError"

fun Speaker_lte :: "Speaker \<Rightarrow> 'n pyobj \<Rightarrow> error + bool" where
  "Speaker_lte self (ObjSpeaker other) = Inr (s_name other \<le> s_name self)"
| "Speaker_lte self (ObjStr other) = Inr (s_name self \<le> other)"
| "Speaker_lte self _ = Inl TypeError"

fun Speaker_gt :: "Speaker \<Rightarrow> 'n pyobj \<Rightarrow> error + bool" where
  "Speaker_gt self (ObjSpeaker other) = Inr (s_name other > s_name self)"
| "Speaker_gt self (ObjStr other) = Inr (s_name self > other)"
| "Speaker_gt self _ = Inl TypeError"

fun Speaker_gte :: "Speaker \<Rightarrow> 'n pyobj \<Rightarrow> error + bool" where
  "Speaker_gte self (ObjSpeaker other) = Inr (s_name other \<ge> s_name self)"
| "Speaker_gte self (ObjStr other) = Inr (s_name self \<ge> other)"
| "Speaker_gte self _ = Inl TypeError"

fun File_eq :: "'n File \<Rightarrow> 'n pyobj \<Rightarrow> error + bool" where
  "File_eq self (ObjFile other) = Inr (f_name other = f_name self)"
| "File_eq self (ObjStr other) = Inr (f_name self = other)"
| "File_eq self _ = Inl TypeError"

fun File_lt :: "'n File \<Rightarrow> 'n pyobj \<Rightarrow> error + bool" where
  "File_lt self (ObjFile other) = Inr (f_name other < f_name self)"
| "File_lt self (ObjStr other) = Inr (f_name self < other)"
| "File_lt self _ = Inl TypeError"

fun File_lte :: "'n File \<Rightarrow> 'n pyobj \<Rightarrow> error + bool" where
  "File_lte self (ObjFile other) = Inr (f_name other \<le> f_name self)"
| "File_lte self (ObjStr other) = Inr (f_name self \<le> other)"
| "File_lte self _ = Inl TypeError"

fun File_gt :: "'n File \<Rightarrow> 'n pyobj \<Rightarrow> error + bool" where
  "File_gt self (ObjFile other) = Inr (f_name other > f_name self)"
| "File_gt self (ObjStr other) = Inr (f_name self > other)"
| "File_gt self _ = Inl TypeError"

fun File_gte :: "'n File \<Rightarrow> 'n pyobj \<Rightarrow> error + bool" where
  "File_gte self (ObjFile other) = Inr (f_name other \<ge> f_name self)"
| "File_gte self (ObjStr other) = Inr (f_name self \<ge> other)"
| "File_gte self _ = Inl TypeError"

fun Utterance_eq :: "('n \<Rightarrow> string) \<Rightarrow> 'n Utterance \<Rightarrow> 'n pyobj \<Rightarrow> error + bool" where
  "Utterance_eq fmt self (ObjUtterance other) =
     Inr (Utterance_name fmt other = Utterance_name fmt self)"
| "Utterance_eq fmt self (ObjStr other) = Inr (Utterance_name fmt self = other)"
| "Utterance_eq fmt self _ = Inl TypeError"

fun Utterance_lt :: "('n \<Rightarrow> string) \<Rightarrow> 'n Utterance \<Rightarrow> 'n pyobj \<Rightarrow> error + bool" where
  "Utterance_lt fmt self (ObjUtterance other) =
     Inr (Utterance_name fmt other < Utterance_name fmt self)"
| "Utterance_lt fmt self (ObjStr other) = Inr (Utterance_name fmt self < other)"
| "Utterance_lt fmt self _ = Inl TypeError"

fun Utterance_lte :: "('n \<Rightarrow> string) \<Rightarrow> 'n Utterance \<Rightarrow> 'n pyobj \<Rightarrow> error + bool" where
  "Utterance_lte fmt self (ObjUtterance other) =
     Inr (Utterance_name fmt other \<le> Utterance_name fmt self)"
| "Utterance_lte fmt self (ObjStr other) = Inr (Utterance_name fmt self \<le> other)"
| "Utterance_lte fmt self _ = Inl TypeError"

fun Utterance_gt :: "('n \<Rightarrow> string) \<Rightarrow> 'n Utterance \<Rightarrow> 'n pyobj \<Rightarrow> error + bool" where
  "Utterance_gt fmt self (ObjUtterance other) =
     Inr (Utterance_name fmt other > Utterance_name fmt self)"
| "Utterance_gt fmt self (ObjStr other) = Inr (Utterance_name fmt self > other)"
| "Utterance_gt fmt self _ = Inl TypeError"

fun Utterance_gte :: "('n \<Rightarrow> string) \<Rightarrow> 'n Utterance \<Rightarrow> 'n pyobj \<Rightarrow> error + bool" where
  "Utterance_gte fmt self (ObjUtterance other) =
     Inr (Utterance_name fmt other \<ge> Utterance_name fmt self)"
| "Utterance_gte fmt self (ObjStr other) = Inr (Utterance_name fmt self \<ge> other)"
| "Utterance_gte fmt self _ = Inl TypeError"

subsection \<open>Collection\<close>

text \<open>
  The dict \<open>_data\<close> of a Collection, in insertion order. Storing under a key that is
  present replaces the value where it stands; a new key goes to the end.
\<close>

fun dict_setitem :: "'k \<Rightarrow> 'v \<Rightarrow> ('k \<times> 'v) list \<Rightarrow> ('k \<times> 'v) list" where
  "dict_setitem k v [] = [(k, v)]"
| "dict_setitem k v (p # ps) = (if fst p = k then (k, v) # ps else p # dict_setitem k v ps)"

fun dict_getitem :: "('k \<times> 'v) list \<Rightarrow> 'k \<Rightarrow> error + 'v" where
  "dict_getitem [] k = Inl KeyError"
| "dict_getitem (p # ps) k = (if fst p = k then Inr (snd p) else dict_getitem ps k)"

fun dict_delitem :: "'k \<Rightarrow> ('k \<times> 'v) list \<Rightarrow> error + ('k \<times> 'v) list" where
  "dict_delitem k [] = Inl KeyError"
| "dict_delitem k (p # ps) =
     (if fst p = k then Inr ps
      else (case dict_delitem k ps of Inl e \<Rightarrow> Inl e | Inr ps' \<Rightarrow> Inr (p # ps')))"

definition UtteranceCollection_add_utterance ::
  "('n \<Rightarrow> string) \<Rightarrow> 'n Utterance \<Rightarrow> (string \<times> 'n Utterance) list
     \<Rightarrow> (string \<times> 'n Utterance) list" where
  "UtteranceCollection_add_utterance fmt u d = dict_setitem (Utterance_name fmt u) u d"

subsection \<open>Speakers and utterances of a file\<close>

text \<open>
  \<open>speaker not in self.speaker_ordering\<close>: the list is searched from the left with
  \<open>==\<close>, which is \<open>Speaker.__eq__\<close>. Two \<open>None\<close> are the same object; \<open>None\<close>
  against a Speaker reaches \<open>Speaker.__eq__\<close> with an operand that is neither a Speaker
  nor a str, which raises.
\<close>

fun item_eq :: "Speaker option \<Rightarrow> Speaker option \<Rightarrow> error + bool" where
  "item_eq None None = Inr True"
| "item_eq (Some a) (Some b) = Inr (s_name b = s_name a)"
| "item_eq _ _ = Inl TypeError"

fun list_contains :: "Speaker option list \<Rightarrow> Speaker option \<Rightarrow> error + bool" where
  "list_contains [] x = Inr False"
| "list_contains (y # ys) x =
     (case item_eq y x of
        Inl e \<Rightarrow> Inl e
      | Inr True \<Rightarrow> Inr True
      | Inr False \<Rightarrow> list_contains ys x)"

definition File_add_speaker :: "'n File \<Rightarrow> Speaker option \<Rightarrow> error + 'n File" where
  "File_add_speaker f spk =
     (case list_contains (speaker_ordering f) spk of
        Inl e \<Rightarrow> Inl e
      | Inr True \<Rightarrow> Inr f
      | Inr False \<Rightarrow> Inr (f\<lparr>speaker_ordering := speaker_ordering f @ [spk]\<rparr>))"

definition File_add_utterance :: "('n \<Rightarrow> string) \<Rightarrow> 'n File \<Rightarrow> 'n Utterance \<Rightarrow> error + 'n File" where
  "File_add_utterance fmt f u =
     File_add_speaker
       (f\<lparr>utterances := UtteranceCollection_add_utterance fmt u (utterances f)\<rparr>)
       (speaker u)"

definition File_delete_utterance :: "('n \<Rightarrow> string) \<Rightarrow> 'n File \<Rightarrow> 'n Utterance \<Rightarrow> error + 'n File" where
  "File_delete_utterance fmt f u =
     (let identifier = Utterance_name fmt u
      in case dict_delitem identifier (utterances f) of
           Inl e \<Rightarrow> Inl e
         | Inr d \<Rightarrow> Inr (f\<lparr>utterances := d\<rparr>))"

subsection \<open>The collaborators\<close>

text \<open>
  What the module calls and does not define: the f-string text and \<open>round(x, 4)\<close> of
  a number, \<open>os.path.exists\<close>, \<open>get_wav_info\<close>, \<open>load_text\<close> and
  \<open>parse_transcription\<close> of corpus/helper.py, and praatio's \<open>openTextgrid\<close>. They are
  the fields of an environment that the operations take. \<open>'s\<close> is the type of the
  sanitize function handed on to \<open>parse_transcription\<close>. A parsed TextGrid is its
  tiers in the order of \<open>tierNameList\<close>, each with its name.
\<close>

datatype 'n tier =
    IntervalTier "('n \<times> 'n \<times> string) list"
  | PointTier "('n \<times> string) list"

record ('n, 's) env =
  fmt_num :: "'n \<Rightarrow> string"
  round4 :: "'n \<Rightarrow> 'n"
  path_exists :: "string \<Rightarrow> bool"
  get_wav_info :: "string \<Rightarrow> error + 'n wav_info"
  helper_load_text :: "string \<Rightarrow> error + string"
  openTextgrid :: "string \<Rightarrow> error + (string \<times> 'n tier) list"
  parse_transcription :: "string \<Rightarrow> 's \<Rightarrow> string list"

subsection \<open>Properties of a file\<close>

definition File_has_sound_file :: "('n, 's) env \<Rightarrow> 'n File \<Rightarrow> bool" where
  "File_has_sound_file env f =
     (case wav_path f of None \<Rightarrow> False | Some w \<Rightarrow> path_exists env w)"

definition File_has_text_file :: "('n, 's) env \<Rightarrow> 'n File \<Rightarrow> bool" where
  "File_has_text_file env f =
     (case text_path f of None \<Rightarrow> False | Some t \<Rightarrow> path_exists env t)"

definition File_text_type :: "('n, 's) env \<Rightarrow> 'n File \<Rightarrow> string option" where
  "File_text_type env f =
     (case text_path f of
        None \<Rightarrow> None
      | Some t \<Rightarrow>
          if path_exists env t
          then (if lower (snd (splitext t)) = ''.textgrid'' then Some ''textgrid''
                else Some ''lab'')
          else None)"

definition File_load_info :: "('n, 's) env \<Rightarrow> 'n File \<Rightarrow> error + 'n File" where
  "File_load_info env f =
     (case wav_path f of
        None \<Rightarrow> Inr f
      | Some w \<Rightarrow>
          (case get_wav_info env w of
             Inl e \<Rightarrow> Inl e
           | Inr i \<Rightarrow> Inr (f\<lparr>wav_info := Some i\<rparr>)))"

text \<open>
  The properties \<open>duration\<close>, \<open>num_channels\<close> and \<open>sample_rate\<close> load the audio
  info on first use, so each returns the file as well. \<open>wav_info_field\<close> is their
  common body after the test of \<open>wav_path\<close>.
\<close>

definition wav_info_field ::
  "('n, 's) env \<Rightarrow> 'n File \<Rightarrow> ('n wav_info \<Rightarrow> 'a) \<Rightarrow> error + ('a \<times> 'n File)" where
  "wav_info_field env f field =
     (case (if wav_info f = None then File_load_info env f else Inr f) of
        Inl e \<Rightarrow> Inl e
      | Inr f' \<Rightarrow>
          (case wav_info f' of
             None \<Rightarrow> Inl TypeError
           | Some i \<Rightarrow> Inr (field i, f')))"

definition File_duration :: "('n::zero, 's) env \<Rightarrow> 'n File \<Rightarrow> error + ('n \<times> 'n File)" where
  "File_duration env f =
     (if wav_path f = None then Inr (0, f) else wav_info_field env f wi_duration)"

definition File_num_channels :: "('n, 's) env \<Rightarrow> 'n File \<Rightarrow> error + (int \<times> 'n File)" where
  "File_num_channels env f =
     (if wav_path f = None then Inr (0, f) else wav_info_field env f wi_num_channels)"

definition File_sample_rate :: "('n, 's) env \<Rightarrow> 'n File \<Rightarrow> error + (int \<times> 'n File)" where
  "File_sample_rate env f =
     (if wav_path f = None then Inr (0, f) else wav_info_field env f wi_sample_rate)"

subsection \<open>load_text\<close>

text \<open>\<open>min(a, b)\<close> of Python: the first argument unless the second is smaller.\<close>

definition py_min :: "'n::ord \<Rightarrow> 'n \<Rightarrow> 'n" where
  "py_min a b = (if b < a then b else a)"

text \<open>
  \<open>stop_check\<close> is a callable without arguments, polled once before every interval;
  the model gives it the number of intervals met so far. The loop over the intervals
  of one tier returns whether the poll ended the parse, the count, and the file.
\<close>

definition polled :: "(nat \<Rightarrow> bool) option \<Rightarrow> nat \<Rightarrow> bool" where
  "polled stop_check n = (case stop_check of None \<Rightarrow> False | Some check \<Rightarrow> check n)"

fun File_load_intervals ::
  "('n::{linorder,zero}, 's) env \<Rightarrow> 's \<Rightarrow> (nat \<Rightarrow> bool) option \<Rightarrow> Speaker
     \<Rightarrow> ('n \<times> 'n \<times> string) list \<Rightarrow> nat \<Rightarrow> 'n File \<Rightarrow> error + (bool \<times> nat \<times> 'n File)" where
  "File_load_intervals env san stop_check spk [] n f = Inr (False, n, f)"
| "File_load_intervals env san stop_check spk ((b, e, txt) # rest) n f =
     (if polled stop_check n then Inr (True, Suc n, f)
      else
        (let txt' = strip (lower txt);
             words = parse_transcription env txt' san
         in if words = [] then File_load_intervals env san stop_check spk rest (Suc n) f
            else
              (let b' = round4 env b;
                   e' = round4 env e
               in case File_duration env f of
                    Inl err \<Rightarrow> Inl err
                  | Inr (d, f1) \<Rightarrow>
                      (case Utterance_init (Some spk) f1 (Some b') (Some (py_min e' d)) (Some 0)
                              (Some (join '' '' words)) of
                         Inl err \<Rightarrow> Inl err
                       | Inr utt \<Rightarrow>
                           (case File_add_utterance (fmt_num env) f1 utt of
                              Inl err \<Rightarrow> Inl err
                            | Inr f2 \<Rightarrow>
                                File_load_intervals env san stop_check spk rest (Suc n) f2)))))"

definition tier_speaker ::
  "Speaker option \<Rightarrow> string \<Rightarrow> 'n File \<Rightarrow> error + (Speaker \<times> 'n File)" where
  "tier_speaker root_speaker tier_name f =
     (case root_speaker of
        None \<Rightarrow>
          (let speaker_name = strip tier_name;
               spk = Speaker_init speaker_name
           in case File_add_speaker f (Some spk) of
                Inl e \<Rightarrow> Inl e
              | Inr f1 \<Rightarrow> Inr (spk, f1))
      | Some r \<Rightarrow> Inr (r, f))"

fun File_load_tiers ::
  "('n::{linorder,zero}, 's) env \<Rightarrow> 's \<Rightarrow> (nat \<Rightarrow> bool) option \<Rightarrow> Speaker option
     \<Rightarrow> (string \<times> 'n tier) list \<Rightarrow> nat \<Rightarrow> 'n File \<Rightarrow> error + 'n File" where
  "File_load_tiers env san stop_check root_speaker [] n f = Inr f"
| "File_load_tiers env san stop_check root_speaker ((tier_name, ti) # rest) n f =
     (if lower tier_name = ''notes''
      then File_load_tiers env san stop_check root_speaker rest n f
      else
        (case ti of
           PointTier pts \<Rightarrow> File_load_tiers env san stop_check root_speaker rest n f
         | IntervalTier entries \<Rightarrow>
             (case tier_speaker root_speaker tier_name f of
                Inl e \<Rightarrow> Inl e
              | Inr (spk, f1) \<Rightarrow>
                  (case File_load_intervals env san stop_check spk entries n f1 of
                     Inl e \<Rightarrow> Inl e
                   | Inr (stopped, n', f2) \<Rightarrow>
                       if stopped then Inr f2
                       else File_load_tiers env san stop_check root_speaker rest n' f2))))"

definition File_load_text ::
  "('n::{linorder,zero}, 's) env \<Rightarrow> 'n File \<Rightarrow> Speaker option \<Rightarrow> 's \<Rightarrow> (nat \<Rightarrow> bool) option
     \<Rightarrow> error + 'n File" where
  "File_load_text env f root_speaker san stop_check =
     (if File_text_type env f = Some ''lab'' then
        (case text_path f of
           None \<Rightarrow> Inl TypeError
         | Some tp \<Rightarrow>
             (case helper_load_text env tp of
                Inl UnicodeDecodeError \<Rightarrow> Inl (TextParseError tp)
              | Inl e \<Rightarrow> Inl e
              | Inr txt \<Rightarrow>
                  (let words = parse_transcription env txt san
                   in case Utterance_init root_speaker f None None (Some 0)
                             (Some (join '' '' words)) of
                        Inl e \<Rightarrow> Inl e
                      | Inr utt \<Rightarrow> File_add_utterance (fmt_num env) f utt)))
      else if File_text_type env f = Some ''textgrid'' then
        (case text_path f of
           None \<Rightarrow> Inl TypeError
         | Some tp \<Rightarrow>
             (case openTextgrid env tp of
                Inl e \<Rightarrow> Inl (TextGridParseError tp)
              | Inr tg \<Rightarrow>
                  if length tg = 0 then Inl (TextGridParseError tp)
                  else
                    (case File_num_channels env f of
                       Inl e \<Rightarrow> Inl e
                     | Inr (num_channels, f1) \<Rightarrow>
                         if num_channels > 2 then Inl MoreThanTwoChannels
                         else File_load_tiers env san stop_check root_speaker tg 0 f1)))
      else
        (case Utterance_init root_speaker f None None (Some 0) None of
           Inl e \<Rightarrow> Inl e
         | Inr utt \<Rightarrow> File_add_utterance (fmt_num env) f utt))"

subsection \<open>parse_file\<close>

text \<open>
  \<open>speaker_characters\<close> is an int or a str. Lines 77 to 81 choose the directory
  \<open>root\<close> and load the audio info; lines 82 to 89 derive the speaker name.
\<close>

datatype speaker_characters = SCInt int | SCStr string

fun truthy :: "speaker_characters \<Rightarrow> bool" where
  "truthy (SCInt i) = (i \<noteq> 0)"
| "truthy (SCStr s) = (s \<noteq> [])"

text \<open>\<open>s[:i]\<close>: a negative \<open>i\<close> counts from the end.\<close>

definition slice_to :: "string \<Rightarrow> int \<Rightarrow> string" where
  "slice_to s i = (if i < 0 then take (nat (int (length s) + i)) s else take (nat i) s)"

definition parse_file_root ::
  "('n, 's) env \<Rightarrow> 'n File \<Rightarrow> string option \<Rightarrow> string option \<Rightarrow> error + (string \<times> 'n File)" where
  "parse_file_root env file wp tp =
     (if File_has_sound_file env file then
        (case wp of
           None \<Rightarrow> Inl TypeError
         | Some w \<Rightarrow>
             (case get_wav_info env w of
                Inl e \<Rightarrow> Inl e
              | Inr i \<Rightarrow> Inr (dirname w, file\<lparr>wav_info := Some i\<rparr>)))
      else
        (case tp of
           None \<Rightarrow> Inl TypeError
         | Some t \<Rightarrow> Inr (dirname t, file)))"

definition parse_file_speaker_name ::
  "speaker_characters \<Rightarrow> string \<Rightarrow> string \<Rightarrow> error + string" where
  "parse_file_speaker_name sc root' file_name' =
     (if \<not> truthy sc then Inr (basename root')
      else
        (case sc of
           SCInt i \<Rightarrow> Inr (slice_to file_name' i)
         | SCStr s \<Rightarrow>
             if s = ''prosodylab''
             then (case split_char (CHR ''_'') file_name' of
                     a # b # rest \<Rightarrow> Inr b
                   | _ \<Rightarrow> Inl IndexError)
             else Inr file_name'))"

definition parse_file ::
  "('n::{linorder,zero}, 's) env \<Rightarrow> string \<Rightarrow> string option \<Rightarrow> string option \<Rightarrow> string option
     \<Rightarrow> speaker_characters \<Rightarrow> 's \<Rightarrow> (nat \<Rightarrow> bool) option \<Rightarrow> error + 'n File" where
  "parse_file env file_name' wp tp rp sc san stop_check =
     (case File_init wp tp rp of
        Inl e \<Rightarrow> Inl e
      | Inr file0 \<Rightarrow>
          (case parse_file_root env file0 wp tp of
             Inl e \<Rightarrow> Inl e
           | Inr (root', file1) \<Rightarrow>
               (case parse_file_speaker_name sc root' file_name' of
                  Inl e \<Rightarrow> Inl e
                | Inr sname \<Rightarrow>
                    (let root_speaker =
                           (if truthy sc \<or> File_text_type env file1 \<noteq> Some ''textgrid''
                            then Some (Speaker_init sname) else None)
                     in File_load_text env file1 root_speaker san stop_check))))"

subsection \<open>save\<close>

text \<open>
  Creating directories and opening the output file are taken to succeed. What
  \<open>save\<close> writes is its result: the text of a lab file, or the Textgrid object handed
  to praatio's \<open>save\<close> (its tiers in the order added, and \<open>maxTimestamp\<close>); the blank
  intervals praatio adds while writing are not part of it.
\<close>

definition File_construct_output_path ::
  "('n, 's) env \<Rightarrow> 'n File \<Rightarrow> string option \<Rightarrow> string option \<Rightarrow> bool \<Rightarrow> error + string" where
  "File_construct_output_path env f output_directory backup_output_directory enforce_lab =
     (let extension = (if enforce_lab then ''.lab'' else ''.TextGrid'')
      in case output_directory of
           None \<Rightarrow>
             (case text_path f of
                None \<Rightarrow>
                  (case wav_path f of
                     None \<Rightarrow> Inl TypeError
                   | Some w \<Rightarrow> Inr (fst (splitext w) @ extension))
              | Some t \<Rightarrow> Inr t)
         | Some od \<Rightarrow>
             (let relative = (case relative_path f of
                                None \<Rightarrow> od
                              | Some rp \<Rightarrow> if rp = [] then od else path_join od rp);
                  tg_path = path_join relative (f_name f @ extension)
              in case backup_output_directory of
                   None \<Rightarrow> Inr tg_path
                 | Some bd \<Rightarrow>
                     if path_exists env tg_path then Inr (replace tg_path od bd)
                     else Inr tg_path))"

record 'n interval =
  iv_start :: "'n option"
  iv_end :: "'n option"
  iv_label :: "string option"

record 'n interval_tier =
  tier_name :: string
  entryList :: "'n interval list"
  minT :: 'n
  maxT :: 'n

datatype 'n written =
    LabFile string string
  | TextGridFile string "'n interval_tier list" 'n

text \<open>
  The dict \<open>tiers\<close> has a Speaker or the str \<open>"speech"\<close> as key. A Speaker hashes as
  its name and equals a Speaker or a str of the same name, so a key is its name.
\<close>

definition tier_key :: "Speaker option \<Rightarrow> string" where
  "tier_key spk = (case spk of None \<Rightarrow> ''speech'' | Some s \<Rightarrow> s_name s)"

fun save_tiers ::
  "'n::zero \<Rightarrow> Speaker option list \<Rightarrow> (string \<times> 'n interval_tier) list
     \<Rightarrow> (string \<times> 'n interval_tier) list" where
  "save_tiers max_time [] tiers = tiers"
| "save_tiers max_time (spk # rest) tiers =
     save_tiers max_time rest
       (dict_setitem (tier_key spk)
          \<lparr>tier_name = tier_key spk, entryList = [], minT = 0, maxT = max_time\<rparr> tiers)"

definition utterance_label :: "'n Utterance \<Rightarrow> string option" where
  "utterance_label u =
     (case transcription_text u of Some t \<Rightarrow> Some t | None \<Rightarrow> u_text u)"

fun save_utterances ::
  "bool \<Rightarrow> 'n Utterance list \<Rightarrow> (string \<times> 'n interval_tier) list
     \<Rightarrow> error + (string \<times> 'n interval_tier) list" where
  "save_utterances is_aligned [] tiers = Inr tiers"
| "save_utterances is_aligned (u # rest) tiers =
     (let spk = tier_key (speaker u)
      in if \<not> is_aligned then
           (case dict_getitem tiers spk of
              Inl e \<Rightarrow> Inl e
            | Inr t \<Rightarrow>
                save_utterances is_aligned rest
                  (dict_setitem spk
                     (t\<lparr>entryList := entryList t @
                          [\<lparr>iv_start = u_begin u, iv_end = u_end u,
                            iv_label = utterance_label u\<rparr>]\<rparr>) tiers))
         else save_utterances is_aligned rest tiers)"

definition single_utterance_shortcut :: "'n File \<Rightarrow> bool" where
  "single_utterance_shortcut f =
     (case utterances f of
        [(k, utterance)] \<Rightarrow>
          u_begin utterance = None \<and>
          (phone_labels utterance = None \<or> phone_labels utterance = Some [])
      | _ \<Rightarrow> False)"

definition File_save ::
  "('n::zero, 's) env \<Rightarrow> 'n File \<Rightarrow> string option \<Rightarrow> string option
     \<Rightarrow> error + ('n written \<times> 'n File)" where
  "File_save env f output_directory backup_output_directory =
     (if single_utterance_shortcut f then
        (case File_construct_output_path env f output_directory backup_output_directory True of
           Inl e \<Rightarrow> Inl e
         | Inr output_path \<Rightarrow>
             (case utterance_label (snd (hd (utterances f))) of
                None \<Rightarrow> Inl TypeError
              | Some t \<Rightarrow> Inr (LabFile output_path t, f)))
      else
        (case File_construct_output_path env f output_directory backup_output_directory False of
           Inl e \<Rightarrow> Inl e
         | Inr output_path \<Rightarrow>
             (case File_duration env f of
                Inl e \<Rightarrow> Inl e
              | Inr (max_time, f1) \<Rightarrow>
                  (case save_utterances (aligned f1) (map snd (utterances f1))
                          (save_tiers max_time (speaker_ordering f1) []) of
                     Inl e \<Rightarrow> Inl e
                   | Inr tiers \<Rightarrow>
                       Inr (TextGridFile output_path (map snd tiers) max_time, f1)))))"

subsection \<open>Snapshot and restore\<close>

text \<open>
  \<open>__getstate__\<close> returns a dict; its keys are the fields of a record. The state of
  a file holds the utterance collection itself. \<open>x.__getstate__()\<close> of an entry
  \<open>None\<close> of \<open>speaker_ordering\<close> raises.
\<close>

record speaker_state =
  st_s_name :: string
  st_cmvn :: "string option"
  st_dictionary_name :: "string option"

definition Speaker_getstate :: "Speaker \<Rightarrow> speaker_state" where
  "Speaker_getstate s =
     \<lparr>st_s_name = s_name s, st_cmvn = cmvn s, st_dictionary_name = dictionary_name s\<rparr>"

definition Speaker_setstate :: "Speaker \<Rightarrow> speaker_state \<Rightarrow> Speaker" where
  "Speaker_setstate self st =
     self\<lparr>s_name := st_s_name st, cmvn := st_cmvn st,
          dictionary_name := st_dictionary_name st\<rparr>"

record 'n file_state =
  st_name :: string
  st_wav_path :: "string option"
  st_text_path :: "string option"
  st_relative_path :: "string option"
  st_aligned :: bool
  st_wav_info :: "'n wav_info option"
  st_waveform :: "'n list list option"
  st_speaker_ordering :: "speaker_state list"
  st_utterances :: "(string \<times> 'n Utterance) list"

fun getstate_all :: "Speaker option list \<Rightarrow> error + speaker_state list" where
  "getstate_all [] = Inr []"
| "getstate_all (None # rest) = Inl AttributeError"
| "getstate_all (Some x # rest) =
     (case getstate_all rest of
        Inl e \<Rightarrow> Inl e
      | Inr sts \<Rightarrow> Inr (Speaker_getstate x # sts))"

definition File_getstate :: "'n File \<Rightarrow> error + 'n file_state" where
  "File_getstate f =
     (case getstate_all (speaker_ordering f) of
        Inl e \<Rightarrow> Inl e
      | Inr sts \<Rightarrow>
          Inr \<lparr>st_name = f_name f, st_wav_path = wav_path f, st_text_path = text_path f,
               st_relative_path = relative_path f, st_aligned = aligned f,
               st_wav_info = wav_info f, st_waveform = waveform f,
               st_speaker_ordering = sts, st_utterances = utterances f\<rparr>)"

text \<open>
  In \<open>__setstate__\<close> every speaker of the restored ordering whose name is the
  utterance's \<open>speaker_name\<close> becomes its speaker, the last one staying.
\<close>

fun relink :: "Speaker option list \<Rightarrow> 'n Utterance \<Rightarrow> error + 'n Utterance" where
  "relink [] u = Inr u"
| "relink (None # rest) u = Inl AttributeError"
| "relink (Some s # rest) u =
     (if s_name s = speaker_name u then relink rest (u\<lparr>speaker := Some s\<rparr>)
      else relink rest u)"

fun setstate_utterances ::
  "('n \<Rightarrow> string) \<Rightarrow> 'n Utterance list \<Rightarrow> 'n File \<Rightarrow> error + 'n File" where
  "setstate_utterances fmt [] f = Inr f"
| "setstate_utterances fmt (u # rest) f =
     (case relink (speaker_ordering f) u of
        Inl e \<Rightarrow> Inl e
      | Inr u' \<Rightarrow>
          (case File_add_utterance fmt f u' of
             Inl e \<Rightarrow> Inl e
           | Inr f' \<Rightarrow> setstate_utterances fmt rest f'))"

definition File_setstate :: "('n \<Rightarrow> string) \<Rightarrow> 'n file_state \<Rightarrow> error + 'n File" where
  "File_setstate fmt state =
     setstate_utterances fmt (map snd (st_utterances state))
       \<lparr>wav_path = st_wav_path state, text_path = st_text_path state,
        f_name = st_name state, relative_path = st_relative_path state,
        wav_info = st_wav_info state, waveform = st_waveform state,
        speaker_ordering =
          map (\<lambda>s. Some (Speaker_setstate (Speaker_init []) s)) (st_speaker_ordering state),
        utterances = [], aligned = st_aligned state\<rparr>"

section \<open>Auxiliary notions for the properties\<close>

text \<open>
  The three single-character replacements of \<open>substitute\<close> act on each character on
  its own; \<open>sub_char\<close> is what one character becomes.
\<close>

definition sub_char :: "char \<Rightarrow> string" where
  "sub_char c =
     (if c = CHR '' '' then ''-space-''
      else if c = CHR ''.'' \<or> c = CHR ''_'' then ''-'' else [c])"

text \<open>
  The plain notation of a non-negative Python float: decimal digits, one dot, decimal
  digits (\<open>2.5\<close>, \<open>0.0\<close>), without sign and without exponent.
\<close>

definition isdigit :: "char \<Rightarrow> bool" where
  "isdigit c = (48 \<le> (of_char c :: nat) \<and> (of_char c :: nat) \<le> 57)"

definition digits :: "string \<Rightarrow> bool" where
  "digits s = list_all isdigit s"

definition plain_decimal :: "string \<Rightarrow> bool" where
  "plain_decimal s =
     (length (filter (\<lambda>c. c = CHR ''.'') s) = 1 \<and>
      list_all (\<lambda>c. c = CHR ''.'' \<or> isdigit c) s)"

text \<open>Values for the examples: a speaker, a file with audio, and a segment of it.\<close>

definition example_speaker :: Speaker where
  "example_speaker = Speaker_init ''spk''"

definition example_file :: "'n File" where
  "example_file =
     \<lparr>wav_path = Some ''/corpus/spk/rec.wav'', text_path = Some ''/corpus/spk/rec.TextGrid'',
      f_name = ''rec'', relative_path = None, wav_info = None, waveform = None,
      speaker_ordering = [], utterances = [], aligned = False\<rparr>"

definition example_segment :: "'n \<Rightarrow> 'n \<Rightarrow> 'n Utterance" where
  "example_segment b e =
     \<lparr>speaker = Some example_speaker, file_name = ''rec'', speaker_name = ''spk'',
      u_begin = Some b, u_end = Some e, channel = Some 0, u_text = Some ''hello'',
      transcription_text = None, ignored = False, features = None,
      feature_length = None, phone_labels = None, word_labels = None, oovs = {}\<rparr>"

text \<open>
  What the parse of a TextGrid builds, written without the loops: an interval is kept
  when its lowered, stripped label has words; \<open>interval_utterance\<close> is the utterance
  made from a kept interval for a speaker, with \<open>d\<close> the duration of the file;
  \<open>tier_utterances\<close> are the utterances of one tier, none for a tier named notes or a
  point tier; \<open>store_all\<close> adds utterances to a collection in order.
  \<open>known_duration\<close> is the duration of a file whose audio info is loaded
  (\<open>wav_ready\<close>) or that has no audio.
\<close>

definition kept_interval :: "('n, 's) env \<Rightarrow> 's \<Rightarrow> 'n \<times> 'n \<times> string \<Rightarrow> bool" where
  "kept_interval env san iv =
     (case iv of (b, e, txt) \<Rightarrow> parse_transcription env (strip (lower txt)) san \<noteq> [])"

definition interval_utterance ::
  "('n::ord, 's) env \<Rightarrow> 's \<Rightarrow> Speaker \<Rightarrow> string \<Rightarrow> 'n \<Rightarrow> 'n \<times> 'n \<times> string \<Rightarrow> 'n Utterance" where
  "interval_utterance env san spk fname d iv =
     (case iv of (b, e, txt) \<Rightarrow>
        \<lparr>speaker = Some spk, file_name = fname, speaker_name = s_name spk,
         u_begin = Some (round4 env b), u_end = Some (py_min (round4 env e) d),
         channel = Some 0,
         u_text = Some (join '' '' (parse_transcription env (strip (lower txt)) san)),
         transcription_text = None, ignored = False, features = None,
         feature_length = None, phone_labels = None, word_labels = None, oovs = {}\<rparr>)"

definition tier_utterances ::
  "('n::ord, 's) env \<Rightarrow> 's \<Rightarrow> Speaker option \<Rightarrow> string \<Rightarrow> 'n \<Rightarrow> string \<times> 'n tier
     \<Rightarrow> 'n Utterance list" where
  "tier_utterances env san root_speaker fname d t =
     (case t of (tn, ti) \<Rightarrow>
        if lower tn = ''notes'' then []
        else (case ti of
                PointTier pts \<Rightarrow> []
              | IntervalTier entries \<Rightarrow>
                  map (interval_utterance env san
                         (case root_speaker of None \<Rightarrow> Speaker_init (strip tn) | Some r \<Rightarrow> r)
                         fname d)
                    (filter (kept_interval env san) entries)))"

definition store_all ::
  "('n \<Rightarrow> string) \<Rightarrow> 'n Utterance list \<Rightarrow> (string \<times> 'n Utterance) list
     \<Rightarrow> (string \<times> 'n Utterance) list" where
  "store_all fmt us d = foldl (\<lambda>d u. UtteranceCollection_add_utterance fmt u d) d us"

definition known_duration :: "'n::zero File \<Rightarrow> 'n" where
  "known_duration f =
     (if wav_path f = None then 0
      else (case wav_info f of None \<Rightarrow> 0 | Some i \<Rightarrow> wi_duration i))"

definition wav_ready :: "'n File \<Rightarrow> bool" where
  "wav_ready f = (wav_path f = None \<or> wav_info f \<noteq> None)"

text \<open>
  An environment for the examples. A time is an integer count of units of 0.00001
  seconds, so four decimals are the multiples of ten: \<open>example_round4\<close> rounds to
  the nearest one, and \<open>example_fmt\<close> prints the count. The sanitizer splits at
  spaces and drops empty words. Every path exists, the audio lasts ten seconds, and the
  TextGrid has a notes tier, a point tier and two speaker tiers; its first interval
  begins at 1.23456 seconds.
\<close>

definition example_round4 :: "int \<Rightarrow> int" where
  "example_round4 x = ((x + 5) div 10) * 10"

definition example_fmt :: "int \<Rightarrow> string" where
  "example_fmt x = str_int x"

definition example_wav_info :: "int wav_info" where
  "example_wav_info =
     \<lparr>wi_duration = 1000000, wi_num_channels = 1, wi_sample_rate = 16000,
      wi_format = ''WAV'', wi_sox_string = []\<rparr>"

definition example_textgrid :: "(string \<times> int tier) list" where
  "example_textgrid =
     [(''Notes'', IntervalTier [(0, 100000, ''ignore me'')]),
      (''points'', PointTier [(50000, ''p'')]),
      ('' A '', IntervalTier [(123456, 200000, ''Hello World''), (200000, 300000, '' '')]),
      (''B'', IntervalTier [(900000, 1200000, ''bye'')])]"

definition example_env :: "(int, unit) env" where
  "example_env =
     \<lparr>fmt_num = example_fmt, round4 = example_round4, path_exists = (\<lambda>p. True),
      get_wav_info = (\<lambda>p. Inr example_wav_info),
      helper_load_text = (\<lambda>p. Inr ''Hello  World''),
      openTextgrid = (\<lambda>p. Inr example_textgrid),
      parse_transcription = (\<lambda>t san. filter (\<lambda>w. w \<noteq> []) (split_char (CHR '' '') t))\<rparr>"

text \<open>The example file after its TextGrid is parsed without a root speaker.\<close>

definition example_loaded :: "int File" where
  "example_loaded =
     example_file
       \<lparr>wav_info := Some example_wav_info,
        speaker_ordering := [Some (Speaker_init ''A''), Some (Speaker_init ''B'')],
        utterances :=
          [(''A-rec-123460-200000'',
            interval_utterance example_env () (Speaker_init ''A'') ''rec'' 1000000
              (123456, 200000, ''Hello World'')),
           (''B-rec-900000-1000000'',
            interval_utterance example_env () (Speaker_init ''B'') ''rec'' 1000000
              (900000, 1200000, ''bye''))]\<rparr>"

text \<open>The example file without its audio, before and after the parse.\<close>

definition example_text_only :: "int File" where
  "example_text_only = example_file\<lparr>wav_path := None\<rparr>"

definition example_text_only_loaded :: "int File" where
  "example_text_only_loaded =
     example_text_only
       \<lparr>speaker_ordering := [Some (Speaker_init ''A''), Some (Speaker_init ''B'')],
        utterances :=
          [(''A-rec-123460-0'',
            interval_utterance example_env () (Speaker_init ''A'') ''rec'' 0
              (123456, 200000, ''Hello World'')),
           (''B-rec-900000-0'',
            interval_utterance example_env () (Speaker_init ''B'') ''rec'' 0
              (900000, 1200000, ''bye''))]\<rparr>"

text \<open>A file with audio only, in the directory of speaker spk7.\<close>

definition example_audio_only :: "int File" where
  "example_audio_only =
     \<lparr>wav_path = Some ''/corpus/spk7/rec.wav'', text_path = None, f_name = ''rec'',
      relative_path = None, wav_info = None, waveform = None, speaker_ordering = [],
      utterances = [], aligned = False\<rparr>"

section \<open>Properties\<close>

subsection \<open>Strings\<close>

lemma replace_from_single:
  "replace_from [c] new s = concat (map (\<lambda>x. if x = c then new else [x]) s)"
proof (induction s)
  case Nil
  show ?case by (subst replace_from.simps) simp
next
  case (Cons x xs)
  show ?case by (subst replace_from.simps) (simp add: Cons)
qed

lemma concat_map_concat_map:
  "concat (map g (concat (map f s))) = concat (map (\<lambda>c. concat (map g (f c))) s)"
  by (induction s) auto

lemma sub_char_pointwise:
  "concat (map (\<lambda>x. if x = CHR ''_'' then ''-'' else [x])
     (concat (map (\<lambda>x. if x = CHR ''.'' then ''-'' else [x])
        (if c = CHR '' '' then ''-space-'' else [c])))) = sub_char c"
  by (simp add: sub_char_def)

lemma substitute_conv: "substitute s = concat (map sub_char s)"
proof -
  have "substitute s =
      concat (map (\<lambda>c. concat (map (\<lambda>x. if x = CHR ''_'' then ''-'' else [x])
        (concat (map (\<lambda>x. if x = CHR ''.'' then ''-'' else [x])
          (if c = CHR '' '' then ''-space-'' else [c]))))) s)"
    unfolding substitute_def replace_def
    by (simp add: replace_from_single concat_map_concat_map)
  then show ?thesis by (simp only: sub_char_pointwise)
qed

lemma substitute_append: "substitute (a @ b) = substitute a @ substitute b"
  by (simp add: substitute_conv)

lemma isdigit_plain:
  "isdigit c \<Longrightarrow> c \<noteq> CHR '' '' \<and> c \<noteq> CHR ''.'' \<and> c \<noteq> CHR ''_'' \<and> c \<noteq> CHR ''-''"
  by (auto simp: isdigit_def)

lemma plain_decimal_split:
  "plain_decimal s \<Longrightarrow> \<exists>a b. s = a @ CHR ''.'' # b \<and> digits a \<and> digits b"
proof (induction s)
  case Nil
  then show ?case by (simp add: plain_decimal_def)
next
  case (Cons c s)
  show ?case
  proof (cases "c = CHR ''.''")
    case True
    with Cons.prems have "filter (\<lambda>c. c = CHR ''.'') s = []"
      and "list_all (\<lambda>c. c = CHR ''.'' \<or> isdigit c) s"
      by (auto simp: plain_decimal_def)
    then have "digits s"
      unfolding digits_def list_all_iff filter_empty_conv by blast
    with True show ?thesis
      by (intro exI[of _ "[]"] exI[of _ s]) (simp add: digits_def)
  next
    case False
    with Cons.prems have "plain_decimal s" and c: "isdigit c"
      by (auto simp: plain_decimal_def)
    from Cons.IH[OF this(1)] obtain a b where "s = a @ CHR ''.'' # b" "digits a" "digits b"
      by blast
    with c show ?thesis
      by (intro exI[of _ "c # a"] exI[of _ b]) (simp add: digits_def)
  qed
qed

lemma digits_substitute: "digits s \<Longrightarrow> substitute s = s"
  unfolding substitute_conv digits_def
  by (induction s) (auto simp: sub_char_def dest: isdigit_plain)

lemma digits_no_dash: "digits s \<Longrightarrow> CHR ''-'' \<notin> set s"
  unfolding digits_def list_all_iff using isdigit_plain by blast

lemma split_unique:
  "x \<notin> set a \<Longrightarrow> x \<notin> set a' \<Longrightarrow> a @ x # r = a' @ x # r' \<Longrightarrow> a = a' \<and> r = r'"
proof (induction a arbitrary: a')
  case Nil
  then show ?case by (cases a') auto
next
  case (Cons y a)
  then show ?case by (cases a') auto
qed

lemma boundary_suffix_inj:
  assumes "plain_decimal sb" "plain_decimal se" "plain_decimal sb'" "plain_decimal se'"
    and eq: "substitute (sb @ ''-'' @ se) = substitute (sb' @ ''-'' @ se')"
  shows "sb = sb' \<and> se = se'"
proof -
  from assms(1) obtain a1 a2 where sb: "sb = a1 @ CHR ''.'' # a2" and d1: "digits a1" "digits a2"
    using plain_decimal_split by blast
  from assms(2) obtain a3 a4 where se: "se = a3 @ CHR ''.'' # a4" and d2: "digits a3" "digits a4"
    using plain_decimal_split by blast
  from assms(3) obtain b1 b2 where sb': "sb' = b1 @ CHR ''.'' # b2" and d3: "digits b1" "digits b2"
    using plain_decimal_split by blast
  from assms(4) obtain b3 b4 where se': "se' = b3 @ CHR ''.'' # b4" and d4: "digits b3" "digits b4"
    using plain_decimal_split by blast
  have dot: "substitute (CHR ''.'' # t) = CHR ''-'' # substitute t" for t
    by (simp add: substitute_conv sub_char_def)
  have dash: "substitute (CHR ''-'' # t) = CHR ''-'' # substitute t" for t
    by (simp add: substitute_conv sub_char_def)
  have L: "substitute (sb @ ''-'' @ se) = a1 @ CHR ''-'' # (a2 @ CHR ''-'' # (a3 @ CHR ''-'' # a4))"
    by (simp add: sb se substitute_append dot dash digits_substitute d1 d2)
  have R: "substitute (sb' @ ''-'' @ se') = b1 @ CHR ''-'' # (b2 @ CHR ''-'' # (b3 @ CHR ''-'' # b4))"
    by (simp add: sb' se' substitute_append dot dash digits_substitute d3 d4)
  from eq L R have e1: "a1 @ CHR ''-'' # (a2 @ CHR ''-'' # (a3 @ CHR ''-'' # a4))
      = b1 @ CHR ''-'' # (b2 @ CHR ''-'' # (b3 @ CHR ''-'' # b4))" by simp
  from split_unique[OF digits_no_dash[OF d1(1)] digits_no_dash[OF d3(1)] e1]
  have 1: "a1 = b1"
    and e2: "a2 @ CHR ''-'' # (a3 @ CHR ''-'' # a4) = b2 @ CHR ''-'' # (b3 @ CHR ''-'' # b4)"
    by auto
  from split_unique[OF digits_no_dash[OF d1(2)] digits_no_dash[OF d3(2)] e2]
  have 2: "a2 = b2" and e3: "a3 @ CHR ''-'' # a4 = b3 @ CHR ''-'' # b4" by auto
  from split_unique[OF digits_no_dash[OF d2(1)] digits_no_dash[OF d4(1)] e3]
  have 3: "a3 = b3" "a4 = b4" by auto
  show ?thesis by (simp add: sb se sb' se' 1 2 3)
qed

subsection \<open>Utterance.name\<close>

lemma Utterance_name_segment:
  "u_begin u = Some b \<Longrightarrow> u_end u = Some e \<Longrightarrow>
   Utterance_name fmt u =
     substitute (if \<not> startswith (substitute (file_name u)) (speaker_name u @ ''-'')
                 then speaker_name u @ ''-'' @ substitute (file_name u)
                 else substitute (file_name u))
     @ substitute (''-'' @ fmt b @ ''-'' @ fmt e)"
  by (simp add: Utterance_name_def Let_def substitute_append)

text \<open>
  C1, as amended. The name is a function of the file name, the speaker name and the
  two boundaries, computed by the steps the claim lists. For two utterances of the same
  file and speaker, both with both boundaries set, whose boundaries print in the plain
  notation of a float, the names are equal exactly when the printed boundaries are
  equal: equal boundaries give the same name, different ones give different names.
\<close>

theorem Utterance_name_boundaries:
  assumes "file_name u = file_name v" and "speaker_name u = speaker_name v"
    and "u_begin u = Some b" and "u_end u = Some e"
    and "u_begin v = Some b'" and "u_end v = Some e'"
    and "plain_decimal (fmt b)" and "plain_decimal (fmt e)"
    and "plain_decimal (fmt b')" and "plain_decimal (fmt e')"
  shows "Utterance_name fmt u = Utterance_name fmt v \<longleftrightarrow> fmt b = fmt b' \<and> fmt e = fmt e'"
proof
  assume eq: "Utterance_name fmt u = Utterance_name fmt v"
  have dash: "substitute (CHR ''-'' # t) = CHR ''-'' # substitute t" for t
    by (simp add: substitute_conv sub_char_def)
  from eq have "substitute (fmt b @ ''-'' @ fmt e) = substitute (fmt b' @ ''-'' @ fmt e')"
    by (simp add: Utterance_name_segment[OF assms(3,4)] Utterance_name_segment[OF assms(5,6)]
        assms(1,2) dash)
  from boundary_suffix_inj[OF assms(7-10) this] show "fmt b = fmt b' \<and> fmt e = fmt e'" .
next
  assume "fmt b = fmt b' \<and> fmt e = fmt e'"
  then show "Utterance_name fmt u = Utterance_name fmt v"
    by (simp add: Utterance_name_segment[OF assms(3,4)] Utterance_name_segment[OF assms(5,6)]
        assms(1,2))
qed

lemma plain_decimal_examples:
  "plain_decimal ''1.5''" "plain_decimal ''2.5''" "plain_decimal ''3.0''"
  by (simp_all add: plain_decimal_def isdigit_def)

theorem Utterance_name_boundaries_witness:
  "plain_decimal (py_str (PyFloat ''1.5'')) \<and> plain_decimal (py_str (PyFloat ''2.5'')) \<and>
   plain_decimal (py_str (PyFloat ''3.0'')) \<and>
   Utterance_name py_str (example_segment (PyFloat ''1.5'') (PyFloat ''2.5'')) \<noteq>
   Utterance_name py_str (example_segment (PyFloat ''1.5'') (PyFloat ''3.0''))"
  using Utterance_name_boundaries
    [of "example_segment (PyFloat ''1.5'') (PyFloat ''2.5'')"
        "example_segment (PyFloat ''1.5'') (PyFloat ''3.0'')"
        "PyFloat ''1.5''" "PyFloat ''2.5''" "PyFloat ''1.5''" "PyFloat ''3.0''" py_str]
  by (simp add: example_segment_def plain_decimal_examples)

lemma str_int_examples: "str_int 1 = ''1''" "str_int 5 = ''5''"
  by code_simp+

text \<open>
  C1 as stated fails: the segments with boundaries \<open>(1, 2.5)\<close> and \<open>(1.2, 5)\<close>, an
  int and a float each, of the same file and speaker have the same name, since the dot
  of a printed float becomes the hyphen that separates the two boundaries.
\<close>

theorem Utterance_name_collision:
  "Utterance_name py_str (example_segment (PyInt 1) (PyFloat ''2.5'')) = ''spk-rec-1-2-5'' \<and>
   Utterance_name py_str (example_segment (PyFloat ''1.2'') (PyInt 5)) = ''spk-rec-1-2-5'' \<and>
   (PyInt 1, PyFloat ''2.5'') \<noteq> (PyFloat ''1.2'', PyInt 5)"
  by (simp add: Utterance_name_def example_segment_def substitute_conv sub_char_def
      startswith_def str_int_examples)

subsection \<open>Comparisons\<close>

text \<open>
  C6. \<open>__lt__\<close> between two entities compares the names the other way round:
  \<open>Speaker("a") < Speaker("b")\<close> is \<open>False\<close> although \<open>"a" < "b"\<close>, while the
  same speaker against the str \<open>"b"\<close> gives \<open>True\<close>; a File behaves alike.
\<close>

theorem entity_lt_reversed:
  "Speaker_lt (Speaker_init ''a'') (ObjSpeaker (Speaker_init ''b'') :: unit pyobj) = Inr False \<and>
   Speaker_lt (Speaker_init ''a'') (ObjStr ''b'' :: unit pyobj) = Inr True \<and>
   File_lt ((example_file :: unit File)\<lparr>f_name := ''a''\<rparr>)
     (ObjFile (example_file\<lparr>f_name := ''b''\<rparr>)) = Inr False \<and>
   (''a'' :: string) < ''b''"
  by (simp add: Speaker_init_def example_file_def)

subsection \<open>load_text on a TextGrid\<close>

lemma store_all_simps [simp]:
  "store_all fmt [] d = d"
  "store_all fmt (u # us) d = store_all fmt us (UtteranceCollection_add_utterance fmt u d)"
  by (simp_all add: store_all_def)

lemma store_all_append: "store_all fmt (us @ vs) d = store_all fmt vs (store_all fmt us d)"
  by (simp add: store_all_def)

lemma File_add_speaker_fields:
  assumes "File_add_speaker f s = Inr f'"
  shows "utterances f' = utterances f" "wav_path f' = wav_path f" "wav_info f' = wav_info f"
    "f_name f' = f_name f" "text_path f' = text_path f" "aligned f' = aligned f"
    "relative_path f' = relative_path f"
  using assms by (auto simp: File_add_speaker_def split: sum.splits bool.splits)

lemma File_add_utterance_fields:
  assumes "File_add_utterance fmt f u = Inr f'"
  shows "utterances f' = UtteranceCollection_add_utterance fmt u (utterances f)"
    "wav_path f' = wav_path f" "wav_info f' = wav_info f"
    "f_name f' = f_name f" "text_path f' = text_path f" "aligned f' = aligned f"
    "relative_path f' = relative_path f"
  using assms File_add_speaker_fields[of "f\<lparr>utterances := UtteranceCollection_add_utterance fmt u (utterances f)\<rparr>" "speaker u" f']
  by (simp_all add: File_add_utterance_def)

lemma File_duration_ready:
  "wav_ready f \<Longrightarrow> File_duration env f = Inr (known_duration f, f)"
  by (auto simp: wav_ready_def File_duration_def known_duration_def wav_info_field_def)

lemma wav_ready_cong:
  "wav_path f' = wav_path f \<Longrightarrow> wav_info f' = wav_info f \<Longrightarrow> wav_ready f' = wav_ready f"
  by (simp add: wav_ready_def)

lemma known_duration_cong:
  "wav_path f' = wav_path f \<Longrightarrow> wav_info f' = wav_info f \<Longrightarrow> known_duration f' = known_duration f"
  by (simp add: known_duration_def)

lemma File_load_intervals_result:
  assumes "wav_ready f" and "\<forall>k. \<not> polled sc k"
    and "File_load_intervals env san sc spk es n f = Inr (stopped, n', f')"
  shows "\<not> stopped \<and>
         utterances f' =
           store_all (fmt_num env)
             (map (interval_utterance env san spk (f_name f) (known_duration f))
                (filter (kept_interval env san) es))
             (utterances f) \<and>
         wav_path f' = wav_path f \<and> wav_info f' = wav_info f \<and> f_name f' = f_name f \<and>
         text_path f' = text_path f \<and> aligned f' = aligned f \<and>
         relative_path f' = relative_path f"
  using assms
proof (induction es arbitrary: n f)
  case Nil
  then show ?case by simp
next
  case (Cons iv es)
  obtain b e lbl where iv: "iv = (b, e, lbl)" by (cases iv) auto
  show ?case
  proof (cases "parse_transcription env (strip (lower lbl)) san = [] ")
    case True
    with Cons.prems iv have "File_load_intervals env san sc spk es (Suc n) f = Inr (stopped, n', f')"
      by simp
    from Cons.IH[OF Cons.prems(1,2) this] True iv show ?thesis
      by (simp add: kept_interval_def)
  next
    case False
    let ?u = "interval_utterance env san spk (f_name f) (known_duration f) iv"
    have init: "Utterance_init (Some spk) f (Some (round4 env b))
        (Some (py_min (round4 env e) (known_duration f))) (Some 0)
        (Some (join '' '' (parse_transcription env (strip (lower lbl)) san))) = Inr ?u"
      by (simp add: Utterance_init_def interval_utterance_def iv)
    from Cons.prems iv False init obtain f2 where
      add: "File_add_utterance (fmt_num env) f ?u = Inr f2" and
      rest: "File_load_intervals env san sc spk es (Suc n) f2 = Inr (stopped, n', f')"
      by (auto simp: File_duration_ready Let_def split: sum.splits)
    note flds = File_add_utterance_fields[OF add]
    have r2: "wav_ready f2" using Cons.prems(1) flds by (simp add: wav_ready_def)
    from Cons.IH[OF r2 Cons.prems(2) rest] flds False iv show ?thesis
      by (simp add: kept_interval_def known_duration_def)
  qed
qed


lemma tier_speaker_fields:
  assumes "tier_speaker root_speaker tn f = Inr (spk, f1)"
  shows "spk = (case root_speaker of None \<Rightarrow> Speaker_init (strip tn) | Some r \<Rightarrow> r)"
    "utterances f1 = utterances f" "wav_path f1 = wav_path f" "wav_info f1 = wav_info f"
    "f_name f1 = f_name f" "text_path f1 = text_path f" "aligned f1 = aligned f"
    "relative_path f1 = relative_path f"
  using assms
  by (auto simp: tier_speaker_def Let_def split: option.splits sum.splits
      dest: File_add_speaker_fields)

lemma File_load_tiers_result:
  assumes "wav_ready f" and "\<forall>k. \<not> polled sc k"
    and "File_load_tiers env san sc root_speaker tg n f = Inr f'"
  shows "utterances f' =
           store_all (fmt_num env)
             (concat (map (tier_utterances env san root_speaker (f_name f) (known_duration f)) tg))
             (utterances f) \<and>
         wav_path f' = wav_path f \<and> wav_info f' = wav_info f \<and> f_name f' = f_name f \<and>
         text_path f' = text_path f \<and> aligned f' = aligned f \<and>
         relative_path f' = relative_path f"
  using assms
proof (induction tg arbitrary: n f)
  case Nil
  then show ?case by simp
next
  case (Cons t tg)
  obtain tn ti where t: "t = (tn, ti)" by (cases t) auto
  show ?case
  proof (cases "lower tn = ''notes''")
    case True
    with Cons.prems t have "File_load_tiers env san sc root_speaker tg n f = Inr f'" by simp
    from Cons.IH[OF Cons.prems(1,2) this] True t show ?thesis
      by (simp add: tier_utterances_def)
  next
    case False
    show ?thesis
    proof (cases ti)
      case (PointTier pts)
      with Cons.prems t False have "File_load_tiers env san sc root_speaker tg n f = Inr f'"
        by simp
      from Cons.IH[OF Cons.prems(1,2) this] False PointTier t show ?thesis
        by (simp add: tier_utterances_def)
    next
      case (IntervalTier entries)
      from Cons.prems(3) t False IntervalTier obtain spk f1 stopped n' f2 where
        ts: "tier_speaker root_speaker tn f = Inr (spk, f1)" and
        li: "File_load_intervals env san sc spk entries n f1 = Inr (stopped, n', f2)" and
        rest: "stopped \<or> File_load_tiers env san sc root_speaker tg n' f2 = Inr f'" and
        st: "stopped \<longrightarrow> f' = f2"
        by (auto split: sum.splits if_splits)
      note tf = tier_speaker_fields[OF ts]
      have r1: "wav_ready f1" using Cons.prems(1) tf by (simp add: wav_ready_def)
      from File_load_intervals_result[OF r1 Cons.prems(2) li]
      have ns: "\<not> stopped" and
        u2: "utterances f2 = store_all (fmt_num env)
              (map (interval_utterance env san spk (f_name f1) (known_duration f1))
                 (filter (kept_interval env san) entries)) (utterances f1)" and
        k2: "wav_path f2 = wav_path f1" "wav_info f2 = wav_info f1" "f_name f2 = f_name f1"
            "text_path f2 = text_path f1" "aligned f2 = aligned f1"
            "relative_path f2 = relative_path f1"
        by auto
      have r2: "wav_ready f2" using r1 k2 by (simp add: wav_ready_def)
      from rest ns have rest': "File_load_tiers env san sc root_speaker tg n' f2 = Inr f'" by simp
      have kd: "known_duration f2 = known_duration f" "known_duration f1 = known_duration f"
        using k2 tf by (simp_all add: known_duration_def)
      from Cons.IH[OF r2 Cons.prems(2) rest'] u2 k2 tf kd False IntervalTier t show ?thesis
        by (simp add: tier_utterances_def store_all_append)
    qed
  qed
qed

lemma wav_info_field_result:
  assumes "wav_info_field env f field = Inr (x, f1)"
  shows "wav_info f1 \<noteq> None" "utterances f1 = utterances f" "wav_path f1 = wav_path f"
    "f_name f1 = f_name f" "text_path f1 = text_path f" "aligned f1 = aligned f"
    "speaker_ordering f1 = speaker_ordering f" "relative_path f1 = relative_path f"
  using assms
  by (auto simp: wav_info_field_def File_load_info_def split: sum.splits option.splits if_splits)

lemma File_num_channels_result:
  assumes "File_num_channels env f = Inr (x, f1)"
  shows "wav_ready f1" "utterances f1 = utterances f" "wav_path f1 = wav_path f"
    "f_name f1 = f_name f" "text_path f1 = text_path f" "aligned f1 = aligned f"
    "speaker_ordering f1 = speaker_ordering f" "relative_path f1 = relative_path f"
  using assms wav_info_field_result[of env f wi_num_channels x f1]
  by (auto simp: File_num_channels_def wav_ready_def split: if_splits)

lemma load_textgrid_utterances:
  assumes tt: "File_text_type env f = Some ''textgrid''"
    and tp: "text_path f = Some tp"
    and og: "openTextgrid env tp = Inr tg"
    and ns: "\<forall>k. \<not> polled sc k"
    and ld: "File_load_text env f root_speaker san sc = Inr f'"
  shows "wav_ready f' \<and>
         utterances f' =
           store_all (fmt_num env)
             (concat (map (tier_utterances env san root_speaker (f_name f) (known_duration f')) tg))
             (utterances f) \<and>
         wav_path f' = wav_path f \<and> f_name f' = f_name f \<and>
         text_path f' = text_path f \<and> aligned f' = aligned f \<and>
         relative_path f' = relative_path f"
proof -
  from ld tt tp og obtain nc f1 where
    nc: "File_num_channels env f = Inr (nc, f1)" and
    lt: "File_load_tiers env san sc root_speaker tg 0 f1 = Inr f'"
    by (auto simp: File_load_text_def split: sum.splits if_splits)
  note n1 = File_num_channels_result[OF nc]
  from File_load_tiers_result[OF n1(1) ns lt] n1
  have *: "utterances f' =
           store_all (fmt_num env)
             (concat (map (tier_utterances env san root_speaker (f_name f) (known_duration f1)) tg))
             (utterances f)"
    and k: "wav_path f' = wav_path f1" "wav_info f' = wav_info f1" "f_name f' = f_name f"
      "text_path f' = text_path f" "aligned f' = aligned f" "relative_path f' = relative_path f"
    by auto
  have "known_duration f' = known_duration f1" using k by (simp add: known_duration_def)
  moreover have "wav_ready f'" using n1(1) k by (simp add: wav_ready_def)
  ultimately show ?thesis using * k n1 by simp
qed


subsection \<open>The example\<close>

lemma lower_examples:
  "lower ''.TextGrid'' = ''.textgrid''" "lower ''Notes'' = ''notes''"
  "lower ''points'' = ''points''" "lower '' A '' = '' a ''" "lower ''B'' = ''b''"
  "lower ''Hello World'' = ''hello world''" "lower '' '' = '' ''" "lower ''bye'' = ''bye''"
  "lower ''ignore me'' = ''ignore me''"
  by code_simp+

lemma strip_examples:
  "strip '' A '' = ''A''" "strip ''B'' = ''B''" "strip ''hello world'' = ''hello world''"
  "strip '' '' = []" "strip ''bye'' = ''bye''"
  by code_simp+

lemma digit_char_values:
  "digit_char 0 = CHR ''0''" "digit_char 1 = CHR ''1''" "digit_char 2 = CHR ''2''"
  "digit_char 3 = CHR ''3''" "digit_char 4 = CHR ''4''" "digit_char 5 = CHR ''5''"
  "digit_char 6 = CHR ''6''" "digit_char 7 = CHR ''7''" "digit_char 8 = CHR ''8''"
  "digit_char 9 = CHR ''9''" "digit_char (Suc 0) = CHR ''1''"
  by code_simp+

lemma str_int_more:
  "str_int 123460 = ''123460''" "str_int 200000 = ''200000''"
  "str_int 900000 = ''900000''" "str_int 1000000 = ''1000000''" "str_int 0 = ''0''"
  by (simp_all add: str_int_def str_nat.simps digit_char_values)

lemma splitext_example:
  "splitext ''/corpus/spk/rec.TextGrid'' = (''/corpus/spk/rec'', ''.TextGrid'')"
  by code_simp

lemma example_env_fields:
  "fmt_num example_env = example_fmt" "round4 example_env = example_round4"
  "path_exists example_env p = True" "get_wav_info example_env p = Inr example_wav_info"
  "openTextgrid example_env p = Inr example_textgrid"
  "parse_transcription example_env t san = filter (\<lambda>w. w \<noteq> []) (split_char (CHR '' '') t)"
  by (simp_all add: example_env_def)

lemma example_wav_info_fields:
  "wi_duration example_wav_info = 1000000" "wi_num_channels example_wav_info = 1"
  by (simp_all add: example_wav_info_def)

lemma example_file_type:
  "File_text_type example_env (example_file :: int File) = Some ''textgrid''"
  by (simp add: File_text_type_def example_env_fields example_file_def splitext_example lower_examples)

lemma example_names:
  "Utterance_name example_fmt
     \<lparr>speaker = Some \<lparr>s_name = ''A'', cmvn = None, dictionary_name = None\<rparr>, file_name = ''rec'',
      speaker_name = ''A'', u_begin = Some 123460, u_end = Some 200000, channel = Some 0,
      u_text = Some ''hello world'', transcription_text = None, ignored = False, features = None,
      feature_length = None, phone_labels = None, word_labels = None, oovs = {}\<rparr>
   = ''A-rec-123460-200000''"
  "Utterance_name example_fmt
     \<lparr>speaker = Some \<lparr>s_name = ''B'', cmvn = None, dictionary_name = None\<rparr>, file_name = ''rec'',
      speaker_name = ''B'', u_begin = Some 900000, u_end = Some 1000000, channel = Some 0,
      u_text = Some ''bye'', transcription_text = None, ignored = False, features = None,
      feature_length = None, phone_labels = None, word_labels = None, oovs = {}\<rparr>
   = ''B-rec-900000-1000000''"
  by (simp_all add: Utterance_name_def substitute_conv sub_char_def
      startswith_def example_fmt_def str_int_more)

lemma example_file_fields:
  "wav_path (example_file :: int File) = Some ''/corpus/spk/rec.wav''"
  "text_path (example_file :: int File) = Some ''/corpus/spk/rec.TextGrid''"
  "f_name (example_file :: int File) = ''rec''"
  "wav_info (example_file :: int File) = None"
  "speaker_ordering (example_file :: int File) = []"
  "utterances (example_file :: int File) = []"
  by (simp_all add: example_file_def)

lemma example_load:
  "File_load_text example_env example_file None () None = Inr example_loaded"
  apply (simp only: File_load_text_def example_file_type)
  apply (simp add: example_file_fields example_env_fields example_textgrid_def
      File_num_channels_def wav_info_field_def File_load_info_def example_wav_info_fields
      lower_examples tier_speaker_def Let_def File_add_speaker_def
      strip_examples polled_def File_duration_def Utterance_init_def File_add_utterance_def
      UtteranceCollection_add_utterance_def Speaker_init_def example_round4_def py_min_def
      example_names[simplified] example_loaded_def interval_utterance_def)
  done


subsection \<open>Boundaries of parsed intervals\<close>

text \<open>
  C8. When a TextGrid is parsed and the stop check never fires, the utterances of the
  file afterwards are those before with, added in order, one utterance for every
  interval whose label has words, tier by tier. The utterance of an interval
  \<open>(b, e, label)\<close> has begin \<open>round(b, 4)\<close> and as end \<open>round(e, 4)\<close>, or the duration of
  the file when that is smaller.
\<close>

theorem load_text_boundaries:
  assumes "File_text_type env f = Some ''textgrid''"
    and "text_path f = Some tp"
    and "openTextgrid env tp = Inr tg"
    and "\<forall>k. \<not> polled stop_check k"
    and "File_load_text env f root_speaker san stop_check = Inr f'"
  shows "File_duration env f' = Inr (known_duration f', f') \<and>
         utterances f' =
           store_all (fmt_num env)
             (concat (map (tier_utterances env san root_speaker (f_name f) (known_duration f')) tg))
             (utterances f) \<and>
         u_begin (interval_utterance env san spk fname (known_duration f') (b, e, lbl))
           = Some (round4 env b) \<and>
         u_end (interval_utterance env san spk fname (known_duration f') (b, e, lbl))
           = Some (if known_duration f' < round4 env e then known_duration f' else round4 env e)"
  using load_textgrid_utterances[OF assms]
  by (simp add: File_duration_ready interval_utterance_def py_min_def)

lemma example_loaded_duration: "known_duration example_loaded = 1000000"
  by (simp add: known_duration_def example_loaded_def example_file_fields example_wav_info_fields)

theorem load_text_boundaries_witness:
  "File_text_type example_env example_file = Some ''textgrid'' \<and>
   text_path (example_file :: int File) = Some ''/corpus/spk/rec.TextGrid'' \<and>
   openTextgrid example_env ''/corpus/spk/rec.TextGrid'' = Inr example_textgrid \<and>
   File_load_text example_env example_file None () None = Inr example_loaded \<and>
   File_duration example_env example_loaded = Inr (1000000, example_loaded) \<and>
   map (\<lambda>(k, u). (u_begin u, u_end u)) (utterances example_loaded) =
     [(Some 123460, Some 200000), (Some 900000, Some 1000000)] \<and>
   u_begin (interval_utterance example_env () (Speaker_init ''A'') ''rec'' 1000000
       (123456, 200000, ''Hello World'')) = Some 123460 \<and>
   u_end (interval_utterance example_env () (Speaker_init ''B'') ''rec'' 1000000
       (900000, 1200000, ''bye'')) = Some 1000000"
proof -
  have ns: "\<forall>k. \<not> polled None k" by (simp add: polled_def)
  note t = load_text_boundaries[OF example_file_type example_file_fields(2)
      example_env_fields(5) ns example_load]
  have b: "example_round4 123456 = 123460" "example_round4 1200000 = 1200000"
    by (simp_all add: example_round4_def)
  have u: "map (\<lambda>(k, u). (u_begin u, u_end u)) (utterances example_loaded) =
     [(Some 123460, Some 200000), (Some 900000, Some 1000000)]"
    by (simp add: example_loaded_def interval_utterance_def example_env_fields
        example_round4_def py_min_def)
  from t have d: "File_duration example_env example_loaded = Inr (1000000, example_loaded)"
    by (simp add: example_loaded_duration)
  from t[of "Speaker_init ''A''" "''rec''" 123456 200000 "''Hello World''"]
  have a: "u_begin (interval_utterance example_env () (Speaker_init ''A'') ''rec'' 1000000
       (123456, 200000, ''Hello World'')) = Some 123460"
    by (simp add: example_loaded_duration example_env_fields b)
  from t[of "Speaker_init ''B''" "''rec''" 900000 1200000 "''bye''"]
  have c: "u_end (interval_utterance example_env () (Speaker_init ''B'') ''rec'' 1000000
       (900000, 1200000, ''bye'')) = Some 1000000"
    by (simp add: example_loaded_duration example_env_fields b)
  show ?thesis
    using d a c u
    by (simp add: example_file_type example_file_fields example_env_fields example_load)
qed


subsection \<open>Files without audio\<close>

lemma py_min_clamp: "py_min r (0::'n::{linorder,zero}) \<le> 0" "0 \<le> r \<Longrightarrow> py_min r 0 = 0"
  by (auto simp: py_min_def)

text \<open>
  C10. A file without an audio path has duration, channel count and sample rate 0,
  whatever the environment, and these properties leave the file as it is (no audio info
  is loaded). When a TextGrid is parsed for such a file, every utterance is built with
  duration 0, so its end is \<open>round(e, 4)\<close> capped at 0.
\<close>

theorem no_audio_zero:
  assumes "wav_path f = None"
  shows "File_duration env f = Inr (0, f) \<and>
         File_num_channels env f = Inr (0, f) \<and>
         File_sample_rate env f = Inr (0, f) \<and>
         (File_text_type env f = Some ''textgrid'' \<and> text_path f = Some tp \<and>
          openTextgrid env tp = Inr tg \<and> (\<forall>k. \<not> polled stop_check k) \<and>
          File_load_text env f root_speaker san stop_check = Inr f' \<longrightarrow>
            utterances f' =
              store_all (fmt_num env)
                (concat (map (tier_utterances env san root_speaker (f_name f) 0) tg))
                (utterances f)) \<and>
         u_end (interval_utterance env san spk fname 0 (b, e, lbl))
           = Some (if 0 < round4 env e then 0 else round4 env e) \<and>
         (if 0 < round4 env e then 0 else round4 env e) \<le> 0"
proof -
  have "utterances f' =
              store_all (fmt_num env)
                (concat (map (tier_utterances env san root_speaker (f_name f) 0) tg))
                (utterances f)"
    if h: "File_text_type env f = Some ''textgrid''" "text_path f = Some tp"
      "openTextgrid env tp = Inr tg" "\<forall>k. \<not> polled stop_check k"
      "File_load_text env f root_speaker san stop_check = Inr f'"
  proof -
    from load_textgrid_utterances[OF h] assms have "known_duration f' = 0"
      by (simp add: known_duration_def)
    with load_textgrid_utterances[OF h] show ?thesis by simp
  qed
  then show ?thesis using assms
    by (auto simp: File_duration_def File_num_channels_def File_sample_rate_def
        interval_utterance_def py_min_def)
qed

lemma example_text_only_fields:
  "wav_path example_text_only = None"
  "text_path example_text_only = Some ''/corpus/spk/rec.TextGrid''"
  "f_name example_text_only = ''rec''"
  "wav_info example_text_only = None"
  "speaker_ordering example_text_only = []"
  "utterances example_text_only = []"
  by (simp_all add: example_text_only_def example_file_def)

lemma example_text_only_type:
  "File_text_type example_env example_text_only = Some ''textgrid''"
  by (simp add: File_text_type_def example_env_fields example_text_only_fields splitext_example
      lower_examples)

lemma example_names_no_audio:
  "Utterance_name example_fmt
     \<lparr>speaker = Some \<lparr>s_name = ''A'', cmvn = None, dictionary_name = None\<rparr>, file_name = ''rec'',
      speaker_name = ''A'', u_begin = Some 123460, u_end = Some 0, channel = Some 0,
      u_text = Some ''hello world'', transcription_text = None, ignored = False, features = None,
      feature_length = None, phone_labels = None, word_labels = None, oovs = {}\<rparr>
   = ''A-rec-123460-0''"
  "Utterance_name example_fmt
     \<lparr>speaker = Some \<lparr>s_name = ''B'', cmvn = None, dictionary_name = None\<rparr>, file_name = ''rec'',
      speaker_name = ''B'', u_begin = Some 900000, u_end = Some 0, channel = Some 0,
      u_text = Some ''bye'', transcription_text = None, ignored = False, features = None,
      feature_length = None, phone_labels = None, word_labels = None, oovs = {}\<rparr>
   = ''B-rec-900000-0''"
  by (simp_all add: Utterance_name_def substitute_conv sub_char_def
      startswith_def example_fmt_def str_int_more)

lemma example_load_no_audio:
  "File_load_text example_env example_text_only None () None = Inr example_text_only_loaded"
  apply (simp only: File_load_text_def example_text_only_type)
  apply (simp add: example_text_only_fields example_env_fields example_textgrid_def
      File_num_channels_def wav_info_field_def File_load_info_def example_wav_info_fields
      lower_examples tier_speaker_def Let_def File_add_speaker_def
      strip_examples polled_def File_duration_def Utterance_init_def File_add_utterance_def
      UtteranceCollection_add_utterance_def Speaker_init_def example_round4_def py_min_def
      example_names_no_audio[simplified] example_text_only_loaded_def interval_utterance_def)
  done

theorem no_audio_zero_witness:
  "wav_path example_text_only = None \<and>
   File_duration example_env example_text_only = Inr (0, example_text_only) \<and>
   File_num_channels example_env example_text_only = Inr (0, example_text_only) \<and>
   File_sample_rate example_env example_text_only = Inr (0, example_text_only) \<and>
   File_load_text example_env example_text_only None () None = Inr example_text_only_loaded \<and>
   map (\<lambda>(k, u). (u_begin u, u_end u)) (utterances example_text_only_loaded) =
     [(Some 123460, Some 0), (Some 900000, Some 0)]"
proof -
  note t = no_audio_zero[OF example_text_only_fields(1), of example_env]
  have u: "map (\<lambda>(k, u). (u_begin u, u_end u)) (utterances example_text_only_loaded) =
     [(Some 123460, Some 0), (Some 900000, Some 0)]"
    by (simp add: example_text_only_loaded_def interval_utterance_def example_env_fields
        example_round4_def py_min_def)
  from t have "File_duration example_env example_text_only = Inr (0, example_text_only)"
    "File_num_channels example_env example_text_only = Inr (0, example_text_only)"
    "File_sample_rate example_env example_text_only = Inr (0, example_text_only)"
    by simp_all
  then show ?thesis
    using u by (simp add: example_text_only_fields example_load_no_audio)
qed


subsection \<open>Speaker attribution in parse_file\<close>

text \<open>
  C9. The speaker name that \<open>parse_file\<close> derives, by policy: for an empty or zero
  policy the base name of the directory \<open>root\<close>, which is the directory of the audio
  path when the audio exists and of the transcript path otherwise; for a positive
  integer \<open>n\<close> the first \<open>n\<close> characters of the file name; for \<open>prosodylab\<close> the
  second of the tokens that underscores delimit, when there are two; for any other
  non-empty string the file name itself. \<open>parse_file\<close> makes the speaker of that name
  the root speaker handed to \<open>load_text\<close>, unless the policy is empty and the
  transcript is a TextGrid.
\<close>

theorem parse_file_speaker_policy:
  "(\<not> truthy sc \<longrightarrow> parse_file_speaker_name sc r fn = Inr (basename r)) \<and>
   (0 < n \<longrightarrow> parse_file_speaker_name (SCInt n) r fn = Inr (take (nat n) fn)) \<and>
   (split_char (CHR ''_'') fn = a # b # rest \<longrightarrow>
      parse_file_speaker_name (SCStr ''prosodylab'') r fn = Inr b) \<and>
   (s \<noteq> [] \<and> s \<noteq> ''prosodylab'' \<longrightarrow> parse_file_speaker_name (SCStr s) r fn = Inr fn) \<and>
   (File_has_sound_file env fl \<and> wp = Some w \<and> get_wav_info env w = Inr i \<longrightarrow>
      parse_file_root env fl wp tp = Inr (dirname w, fl\<lparr>wav_info := Some i\<rparr>)) \<and>
   (\<not> File_has_sound_file env fl \<and> tp = Some t \<longrightarrow>
      parse_file_root env fl wp tp = Inr (dirname t, fl)) \<and>
   (File_init wp tp rp = Inr f0 \<and> parse_file_root env f0 wp tp = Inr (r, f1) \<and>
    parse_file_speaker_name sc r fn = Inr sname \<longrightarrow>
      parse_file env fn wp tp rp sc san stop_check =
        File_load_text env f1
          (if truthy sc \<or> File_text_type env f1 \<noteq> Some ''textgrid''
           then Some (Speaker_init sname) else None) san stop_check)"
  by (auto simp: parse_file_speaker_name_def parse_file_root_def slice_to_def parse_file_def)

lemma path_examples:
  "dirname ''/corpus/spk7/rec.wav'' = ''/corpus/spk7''"
  "basename ''/corpus/spk7'' = ''spk7''"
  "fst (splitext (basename ''/corpus/spk7/rec.wav'')) = ''rec''"
  by code_simp+

lemma split_examples:
  "split_char (CHR ''_'') ''JOHN_utt1'' = [''JOHN'', ''utt1'']"
  by simp

lemma example_audio_only_init:
  "File_init (Some ''/corpus/spk7/rec.wav'') None None = Inr example_audio_only"
  by (simp add: File_init_def path_examples example_audio_only_def)

theorem parse_file_speaker_policy_witness:
  "File_has_sound_file example_env example_audio_only \<and>
   parse_file_root example_env example_audio_only (Some ''/corpus/spk7/rec.wav'') None =
     Inr (''/corpus/spk7'', example_audio_only\<lparr>wav_info := Some example_wav_info\<rparr>) \<and>
   \<not> truthy (SCInt 0) \<and>
   parse_file_speaker_name (SCInt 0) ''/corpus/spk7'' ''rec'' = Inr ''spk7'' \<and>
   parse_file_speaker_name (SCStr ''prosodylab'') ''/corpus/spk7'' ''JOHN_utt1'' = Inr ''utt1'' \<and>
   parse_file_speaker_name (SCInt 4) ''/corpus/spk7'' ''annaSession1'' = Inr ''anna'' \<and>
   parse_file_speaker_name (SCStr ''name'') ''/corpus/spk7'' ''rec'' = Inr ''rec'' \<and>
   parse_file example_env ''rec'' (Some ''/corpus/spk7/rec.wav'') None None (SCInt 0) () None =
     File_load_text example_env (example_audio_only\<lparr>wav_info := Some example_wav_info\<rparr>)
       (Some (Speaker_init ''spk7'')) () None"
proof -
  have hs: "File_has_sound_file example_env example_audio_only"
    by (simp add: File_has_sound_file_def example_audio_only_def example_env_fields)
  have wp: "wav_path example_audio_only = Some ''/corpus/spk7/rec.wav''"
    by (simp add: example_audio_only_def)
  note p = parse_file_speaker_policy
  have tt: "File_text_type example_env (example_audio_only\<lparr>wav_info := Some example_wav_info\<rparr>)
      = None"
    by (simp add: File_text_type_def example_audio_only_def)
  from p[where sc = "SCInt 0" and r = "''/corpus/spk7''" and fn = "''rec''" and n = "4" and a = "''JOHN''" and b = "''utt1''" and rest = "[]" and s = "''name''" and env = "example_env" and fl = "example_audio_only" and wp = "Some ''/corpus/spk7/rec.wav''" and w = "''/corpus/spk7/rec.wav''" and i = "example_wav_info" and tp = "None" and t = "''x''" and rp = "None" and ?f0.0 = "example_audio_only" and ?f1.0 = "example_audio_only\<lparr>wav_info := Some example_wav_info\<rparr>" and sname = "''spk7''" and san = "()" and stop_check = "None"]
  have c: "parse_file_root example_env example_audio_only (Some ''/corpus/spk7/rec.wav'') None =
       Inr (''/corpus/spk7'', example_audio_only\<lparr>wav_info := Some example_wav_info\<rparr>) \<and>
     parse_file_speaker_name (SCInt 0) ''/corpus/spk7'' ''rec'' = Inr ''spk7'' \<and>
     parse_file_speaker_name (SCStr ''name'') ''/corpus/spk7'' ''rec'' = Inr ''rec'' \<and>
     parse_file example_env ''rec'' (Some ''/corpus/spk7/rec.wav'') None None (SCInt 0) () None =
       File_load_text example_env (example_audio_only\<lparr>wav_info := Some example_wav_info\<rparr>)
         (Some (Speaker_init ''spk7'')) () None"
    using hs example_audio_only_init tt by (simp add: example_env_fields path_examples)
  from p[where sc = "SCInt 0" and r = "''/corpus/spk7''" and fn = "''JOHN_utt1''" and n = "4" and a = "''JOHN''" and b = "''utt1''" and rest = "[]" and s = "''name''" and env = "example_env" and fl = "example_audio_only" and wp = "Some ''/corpus/spk7/rec.wav''" and w = "''/corpus/spk7/rec.wav''" and i = "example_wav_info" and tp = "None" and t = "''x''" and rp = "None" and ?f0.0 = "example_audio_only" and ?f1.0 = "example_audio_only\<lparr>wav_info := Some example_wav_info\<rparr>" and sname = "''spk7''" and san = "()" and stop_check = "None"]
  have n1: "parse_file_speaker_name (SCStr ''prosodylab'') ''/corpus/spk7'' ''JOHN_utt1'' = Inr ''utt1''"
    by simp
  from p[where sc = "SCInt 0" and r = "''/corpus/spk7''" and fn = "''annaSession1''" and n = "4" and a = "''JOHN''" and b = "''utt1''" and rest = "[]" and s = "''name''" and env = "example_env" and fl = "example_audio_only" and wp = "Some ''/corpus/spk7/rec.wav''" and w = "''/corpus/spk7/rec.wav''" and i = "example_wav_info" and tp = "None" and t = "''x''" and rp = "None" and ?f0.0 = "example_audio_only" and ?f1.0 = "example_audio_only\<lparr>wav_info := Some example_wav_info\<rparr>" and sname = "''spk7''" and san = "()" and stop_check = "None"]
  have n2: "parse_file_speaker_name (SCInt 4) ''/corpus/spk7'' ''annaSession1'' = Inr ''anna''"
    by simp
  show ?thesis using hs c n1 n2 by simp
qed


end
